theory Spec2Isabelle
  imports Main "HOL-Library.Multiset"
begin

section \<open>Strings of the chat UI: character classes of the regular expressions\<close>

text \<open>
  A JavaScript string is modelled as a \<^typ>\<open>string\<close>: a list of code units, here the
  code units 0..255. Within that range the class \<open>\s\<close> (and the characters removed by
  \<open>String.prototype.trim\<close>) is tab, line feed, vertical tab, form feed, carriage return,
  space and no-break space; \<open>\d\<close> is the ten ASCII digits. Under the \<open>i\<close> flag (no
  \<open>u\<close> flag) an ASCII letter of a pattern matches exactly its two ASCII cases: a code
  unit of 128 or more is never folded onto an ASCII letter.
\<close>

definition is_ws :: "char \<Rightarrow> bool" where
  "is_ws c = ((of_char c :: nat) \<in> {9, 10, 11, 12, 13, 32, 160})"

definition is_digit :: "char \<Rightarrow> bool" where
  "is_digit c = (48 \<le> (of_char c :: nat) \<and> (of_char c :: nat) \<le> 57)"

definition ascii_upper :: "char \<Rightarrow> char" where
  "ascii_upper c =
     (if 97 \<le> (of_char c :: nat) \<and> (of_char c :: nat) \<le> 122
      then char_of ((of_char c :: nat) - 32) else c)"

definition ci_eq :: "char \<Rightarrow> char \<Rightarrow> bool" where
  "ci_eq p c = (ascii_upper c = ascii_upper p)"

text \<open>\<open>String.prototype.trim\<close>: white space is removed at both ends.\<close>

definition trim :: "string \<Rightarrow> string" where
  "trim s = rev (dropWhile is_ws (rev (dropWhile is_ws s)))"

text \<open>
  \<open>parseInt\<close> on a captured run of decimal digits. The JavaScript Number is modelled by
  the integer the digits denote; the two agree for every run of at most 15 digits (values
  below \<open>2^53\<close>), a longer run is rounded to the nearest double by JavaScript.
\<close>

definition digit_val :: "char \<Rightarrow> nat" where
  "digit_val c = (of_char c :: nat) - 48"

definition parseInt :: "string \<Rightarrow> nat" where
  "parseInt ds = foldl (\<lambda>n c. 10 * n + digit_val c) 0 ds"

section \<open>The regular expressions of \<open>parseExercisesFromMessage\<close>\<close>

text \<open>
  \<open>/\*\*([^*]+)\*\*/\<close> tried at the start of a string: two asterisks, the longest run of
  characters other than an asterisk (at least one), two asterisks. The run cannot be
  shortened by backtracking, since the character after a shorter run is not an asterisk.
  The result is the captured name and the text after the match.
\<close>

definition match_bold :: "string \<Rightarrow> (string \<times> string) option" where
  "match_bold s =
     (case s of
        c1 # c2 # t \<Rightarrow>
          if c1 = CHR ''*'' \<and> c2 = CHR ''*'' then
            (let name = takeWhile (\<lambda>c. c \<noteq> CHR ''*'') t;
                 r = dropWhile (\<lambda>c. c \<noteq> CHR ''*'') t
             in case r of
                  a # b # r' \<Rightarrow>
                    if name \<noteq> [] \<and> a = CHR ''*'' \<and> b = CHR ''*'' then Some (name, r')
                    else None
                | _ \<Rightarrow> None)
          else None
      | _ \<Rightarrow> None)"

lemma match_bold_shorter:
  "match_bold s = Some (name, r) \<Longrightarrow> length r < length s"
proof -
  assume m: "match_bold s = Some (name, r)"
  then obtain t where s: "s = CHR ''*'' # CHR ''*'' # t"
    by (auto simp: match_bold_def split: list.splits if_splits)
  from m s obtain a b where d: "dropWhile (\<lambda>c. c \<noteq> CHR ''*'') t = a # b # r"
    by (auto simp: match_bold_def Let_def split: list.splits if_splits)
  have "length (dropWhile (\<lambda>c. c \<noteq> CHR ''*'') t) \<le> length t"
    by (rule length_dropWhile_le)
  with d s show ?thesis by simp
qed

text \<open>
  \<open>content.split(/\*\*([^*]+)\*\*/)\<close>, the loop of \<open>RegExp.prototype[Symbol.split]\<close>:
  \<open>acc\<close> is the text between the end of the last match and the current position. Where
  the pattern matches, the text before it and the captured name are pushed and the scan
  goes on after the match; where it does not, the scan advances by one character. The
  pattern never matches the empty string, so the empty text splits into one empty
  section.
\<close>

function split_go :: "string \<Rightarrow> string \<Rightarrow> string list" where
  "split_go acc [] = [acc]"
| "split_go acc (c # s) =
     (case match_bold (c # s) of
        None \<Rightarrow> split_go (acc @ [c]) s
      | Some (name, r) \<Rightarrow> acc # name # split_go [] r)"
  by pat_completeness auto
termination
  by (relation "measure (\<lambda>(acc, s). length s)") (auto dest: match_bold_shorter)

definition split_bold :: "string \<Rightarrow> string list" where
  "split_bold content = split_go [] content"

text \<open>
  A literal matched without regard to ASCII case at the start of a string; the result is
  the text after it.
\<close>

fun match_ci :: "string \<Rightarrow> string \<Rightarrow> string option" where
  "match_ci [] s = Some s"
| "match_ci (p # ps) [] = None"
| "match_ci (p # ps) (c # s) = (if ci_eq p c then match_ci ps s else None)"

text \<open>
  \<open>/Sets?:\s*(\d+)/i\<close>, \<open>/Reps?:\s*(\d+)/i\<close> and \<open>/Weight:\s*(\d+)/i\<close> tried at the start
  of a string: the label, an optional \<open>s\<close> when \<open>opt_s\<close> is set, a colon, any white
  space, and the longest run of digits (at least one), which is the capture. No step can
  be matched in a second way, so there is nothing to backtrack into.
\<close>

definition match_label :: "string \<Rightarrow> bool \<Rightarrow> string \<Rightarrow> string option" where
  "match_label lbl opt_s s =
     (case match_ci lbl s of
        None \<Rightarrow> None
      | Some r \<Rightarrow>
          (let r1 = (case r of
                       c # r' \<Rightarrow> if opt_s \<and> ci_eq (CHR ''s'') c then r' else r
                     | [] \<Rightarrow> r)
           in case r1 of
                c # r2 \<Rightarrow>
                  if c = CHR '':'' then
                    (let ds = takeWhile is_digit (dropWhile is_ws r2)
                     in if ds \<noteq> [] then Some ds else None)
                  else None
              | [] \<Rightarrow> None))"

text \<open>
  \<open>String.prototype.match\<close> with a pattern without the \<open>g\<close> flag: the pattern is tried
  at every position from the left, and the first position where it matches decides.
\<close>

fun regex_search :: "(string \<Rightarrow> 'a option) \<Rightarrow> string \<Rightarrow> 'a option" where
  "regex_search m [] = m []"
| "regex_search m (c # s) =
     (case m (c # s) of Some r \<Rightarrow> Some r | None \<Rightarrow> regex_search m s)"

definition setsMatch :: "string \<Rightarrow> string option" where
  "setsMatch details = regex_search (match_label ''Set'' True) details"

definition repsMatch :: "string \<Rightarrow> string option" where
  "repsMatch details = regex_search (match_label ''Rep'' True) details"

definition weightMatch :: "string \<Rightarrow> string option" where
  "weightMatch details = regex_search (match_label ''Weight'' False) details"

section \<open>\<open>parseExercisesFromMessage\<close>\<close>

record suggestion =
  exercise :: string
  sets :: nat
  reps :: nat
  weight :: nat

text \<open>
  The loop \<open>for (let i = 1; i < sections.length; i += 2)\<close>. \<open>sections[i + 1] || ''\<close> is
  the empty string where the index is out of range; an empty trimmed name is falsy.
\<close>

function parse_loop :: "string list \<Rightarrow> nat \<Rightarrow> suggestion list \<Rightarrow> suggestion list" where
  "parse_loop sections i exercises =
     (if i < length sections then
        (let exerciseName = trim (sections ! i);
             details = (if i + 1 < length sections then sections ! (i + 1) else []);
             exercises' =
               (case (setsMatch details, repsMatch details, weightMatch details) of
                  (Some s, Some r, Some w) \<Rightarrow>
                    if exerciseName \<noteq> [] then
                      exercises @
                        [\<lparr>exercise = exerciseName, sets = parseInt s, reps = parseInt r,
                          weight = parseInt w\<rparr>]
                    else exercises
                | _ \<Rightarrow> exercises)
         in parse_loop sections (i + 2) exercises')
      else exercises)"
  by pat_completeness auto
termination
  by (relation "measure (\<lambda>(sections, i, exercises). length sections - i)") auto

definition parseExercisesFromMessage :: "string \<Rightarrow> suggestion list" where
  "parseExercisesFromMessage content = parse_loop (split_bold content) 1 []"


text \<open>
  The extractor as the specification words it, for comparison with the loop: the sections
  alternate between plain text and captured names; every name is paired with the plain
  section right after it, and a pair yields a suggestion when the trimmed name is not
  empty and each of the three patterns finds its integer in that section.
\<close>

fun spec_blocks :: "string list \<Rightarrow> (string \<times> string) list" where
  "spec_blocks (p # n # d # rest) = (n, d) # spec_blocks (d # rest)"
| "spec_blocks [p, n] = [(n, [])]"
| "spec_blocks [p] = []"
| "spec_blocks [] = []"

definition spec_block_suggestion :: "string \<times> string \<Rightarrow> suggestion option" where
  "spec_block_suggestion b =
     (case b of (name, details) \<Rightarrow>
        (case setsMatch details of
           None \<Rightarrow> None
         | Some s \<Rightarrow>
             (case repsMatch details of
                None \<Rightarrow> None
              | Some r \<Rightarrow>
                  (case weightMatch details of
                     None \<Rightarrow> None
                   | Some w \<Rightarrow>
                       if trim name = [] then None
                       else Some \<lparr>exercise = trim name, sets = parseInt s,
                                  reps = parseInt r, weight = parseInt w\<rparr>))))"

definition spec_extract :: "string \<Rightarrow> suggestion list" where
  "spec_extract content =
     List.map_filter spec_block_suggestion (spec_blocks (split_bold content))"

text \<open>
  Putting the double asterisks back around every captured name and concatenating: the
  inverse of the split.
\<close>

fun join_bold :: "string list \<Rightarrow> string" where
  "join_bold (p # n # rest) = p @ ''**'' @ n @ ''**'' @ join_bold rest"
| "join_bold [p] = p"
| "join_bold [] = []"


section \<open>The store: the two tables behind the Supabase client\<close>

text \<open>
  The hosted database is outside the repository. It is modelled by its two tables, each a
  list of rows. A time stamp is the number of milliseconds since 1970-01-01T00:00:00Z; a
  calendar date \<open>YYYY-MM-DD\<close> is the number of days since 1970-01-01, so that the order of
  the dates is the order of the numbers. Row identifiers (UUID strings in the source) are
  natural numbers. The numeric columns of a workout have the type parameter \<open>'n\<close>: the
  code below only stores them and prints them.
\<close>

type_synonym timestamp = int
type_synonym day = int

record 'n workout =
  w_id :: nat
  w_exercise :: string
  w_sets :: 'n
  w_reps :: 'n
  w_weight :: 'n
  w_notes :: "string option"
  created_at :: timestamp

record gym_visit =
  v_id :: nat
  visited_date :: day

text \<open>
  The server state: the tables, and the paths handed to \<open>revalidatePath\<close> so far.
\<close>

record 'n state =
  workouts :: "'n workout list"
  gym_visits :: "gym_visit list"
  revalidated :: "string list"

text \<open>
  What a server function throws. Every call to the store takes the outcome the store
  gives it: \<open>None\<close> when the call succeeds, \<open>Some msg\<close> when the store answers with an
  error of that message and leaves its tables as they are.
\<close>

datatype error = Error string | RangeError | TypeError

type_synonym fault = "string option"

text \<open>
  \<open>.order('created_at', { ascending: false })\<close>. The database leaves the order of rows of
  equal time stamp open; the model keeps them in table order.
\<close>

definition order_desc :: "'n workout list \<Rightarrow> 'n workout list" where
  "order_desc rows = sort_key (\<lambda>w. - created_at w) rows"


subsection \<open>Server actions\<close>

definition deleteWorkout :: "fault \<Rightarrow> nat \<Rightarrow> 'n state \<Rightarrow> (error + unit) \<times> 'n state" where
  "deleteWorkout f i s =
     (case f of
        Some msg \<Rightarrow> (Inl (Error msg), s)
      | None \<Rightarrow>
          (Inr (),
           s\<lparr>workouts := filter (\<lambda>w. w_id w \<noteq> i) (workouts s),
             revalidated := revalidated s @ [''/'']\<rparr>))"



subsection \<open>Dates\<close>

text \<open>
  A \<open>Date\<close> holds a time value, or is invalid (\<open>None\<close>) when a computed time value leaves
  the range of \<open>TimeClip\<close>. Local time is the time value plus the offset \<open>tz\<close> of the host's
  time zone in milliseconds; the offset is constant, a zone with daylight-saving
  transitions is outside the model. Day 0 (1970-01-01) was a Thursday, and \<open>getDay\<close>
  counts from Sunday.
\<close>

definition msPerDay :: int where
  "msPerDay = 86400000"

definition time_clip :: "int \<Rightarrow> timestamp option" where
  "time_clip t = (if \<bar>t\<bar> \<le> 8640000000000000 then Some t else None)"

definition local_day :: "int \<Rightarrow> timestamp \<Rightarrow> int" where
  "local_day tz t = (t + tz) div msPerDay"

definition time_in_day :: "int \<Rightarrow> timestamp \<Rightarrow> int" where
  "time_in_day tz t = (t + tz) mod msPerDay"

definition getDay :: "int \<Rightarrow> timestamp \<Rightarrow> int" where
  "getDay tz t = (local_day tz t + 4) mod 7"

text \<open>\<open>d.setDate(d.getDate() + k)\<close>: the local calendar day moves, the local time of day stays.\<close>

definition add_days :: "int \<Rightarrow> int \<Rightarrow> timestamp \<Rightarrow> timestamp option" where
  "add_days tz k t = time_clip ((local_day tz t + k) * msPerDay + time_in_day tz t - tz)"

text \<open>
  \<open>d.setHours(h, m, s, ms)\<close>, with the four arguments given as the millisecond \<open>tm\<close> of
  the day: the local calendar day stays.
\<close>

definition setHours :: "int \<Rightarrow> int \<Rightarrow> timestamp \<Rightarrow> timestamp option" where
  "setHours tz tm t = time_clip (local_day tz t * msPerDay + tm - tz)"

text \<open>
  \<open>d.toISOString()\<close> is the time stamp in UTC and throws a RangeError on an invalid date;
  \<open>d.toISOString().split('T')[0]\<close> is its UTC calendar date.
\<close>

definition toISOString :: "timestamp option \<Rightarrow> error + timestamp" where
  "toISOString d = (case d of None \<Rightarrow> Inl RangeError | Some t \<Rightarrow> Inr t)"

definition toISOString_date :: "timestamp option \<Rightarrow> error + day" where
  "toISOString_date d = (case d of None \<Rightarrow> Inl RangeError | Some t \<Rightarrow> Inr (t div msPerDay))"

subsection \<open>Queries\<close>

definition getWorkouts :: "fault \<Rightarrow> 'n state \<Rightarrow> error + 'n workout list" where
  "getWorkouts f s =
     (case f of Some msg \<Rightarrow> Inl (Error msg) | None \<Rightarrow> Inr (order_desc (workouts s)))"

text \<open>
  \<open>getRecentWorkouts(days = 14)\<close> at the clock reading \<open>now\<close>; \<open>days\<close> is \<open>None\<close> when the
  caller leaves the argument out.
\<close>

definition getRecentWorkouts ::
  "fault \<Rightarrow> int \<Rightarrow> timestamp \<Rightarrow> nat option \<Rightarrow> 'n state \<Rightarrow> error + 'n workout list" where
  "getRecentWorkouts f tz now days s =
     (let n = (case days of None \<Rightarrow> 14 | Some d \<Rightarrow> d);
          since = add_days tz (- int n) now
      in case toISOString since of
           Inl e \<Rightarrow> Inl e
         | Inr since_iso \<Rightarrow>
             (case f of
                Some msg \<Rightarrow> Inl (Error msg)
              | None \<Rightarrow>
                  Inr (order_desc (filter (\<lambda>w. since_iso \<le> created_at w) (workouts s)))))"

text \<open>
  The distance of the local day of \<open>today\<close> from the Monday of its week: \<open>getDay\<close> is 0 on
  a Sunday, which lies six days after its Monday.
\<close>

definition daysFromMonday :: "int \<Rightarrow> timestamp \<Rightarrow> int" where
  "daysFromMonday tz today =
     (let dayOfWeek = getDay tz today in if dayOfWeek = 0 then 6 else dayOfWeek - 1)"

definition getWeeklyGymVisits ::
  "fault \<Rightarrow> int \<Rightarrow> timestamp \<Rightarrow> 'n state \<Rightarrow> error + gym_visit list" where
  "getWeeklyGymVisits f tz now s =
     (let today = now;
          monday = Option.bind (add_days tz (- daysFromMonday tz today) today) (setHours tz 0);
          sunday = Option.bind (Option.bind monday (add_days tz 6)) (setHours tz 86399999)
      in case toISOString_date monday of
           Inl e \<Rightarrow> Inl e
         | Inr lo \<Rightarrow>
             (case toISOString_date sunday of
                Inl e \<Rightarrow> Inl e
              | Inr hi \<Rightarrow>
                  (case f of
                     Some msg \<Rightarrow> Inl (Error msg)
                   | None \<Rightarrow>
                       Inr (filter (\<lambda>v. lo \<le> visited_date v \<and> visited_date v \<le> hi)
                              (gym_visits s)))))"


section \<open>The chat endpoint\<close>

subsection \<open>Request bodies\<close>

text \<open>
  A parsed JSON value. Numbers are integers here: the endpoint only asks whether a value
  is truthy and whether it is a string. \<open>JSON.parse\<close> keeps the last of several members of
  the same name.
\<close>

datatype json =
  JNull | JBool bool | JNum int | JStr string | JArr "json list" | JObj "(string \<times> json) list"

text \<open>
  Reading a property of a value other than null; \<open>None\<close> is \<open>undefined\<close>. The
  properties read are \<open>message\<close>, \<open>history\<close>, \<open>role\<close> and \<open>content\<close>, which only an
  object can have.
\<close>

definition get_prop :: "json \<Rightarrow> string \<Rightarrow> json option" where
  "get_prop v k = (case v of JObj members \<Rightarrow> map_of (rev members) k | _ \<Rightarrow> None)"

definition truthy :: "json option \<Rightarrow> bool" where
  "truthy v =
     (case v of
        None \<Rightarrow> False
      | Some JNull \<Rightarrow> False
      | Some (JBool b) \<Rightarrow> b
      | Some (JNum n) \<Rightarrow> n \<noteq> 0
      | Some (JStr s) \<Rightarrow> s \<noteq> []
      | Some (JArr xs) \<Rightarrow> True
      | Some (JObj members) \<Rightarrow> True)"

definition typeof :: "json option \<Rightarrow> string" where
  "typeof v =
     (case v of
        None \<Rightarrow> ''undefined''
      | Some JNull \<Rightarrow> ''object''
      | Some (JBool b) \<Rightarrow> ''boolean''
      | Some (JNum n) \<Rightarrow> ''number''
      | Some (JStr s) \<Rightarrow> ''string''
      | Some (JArr xs) \<Rightarrow> ''object''
      | Some (JObj members) \<Rightarrow> ''object'')"

text \<open>The text of a value known to be a string.\<close>

definition str_of :: "json option \<Rightarrow> string" where
  "str_of v = (case v of Some (JStr s) \<Rightarrow> s | _ \<Rightarrow> [])"

text \<open>
  \<open>const { message, history } = await req.json()\<close>: destructuring null throws a
  TypeError, any other value gives its two properties.
\<close>

definition destructure :: "json \<Rightarrow> error + json option \<times> json option" where
  "destructure body =
     (case body of
        JNull \<Rightarrow> Inl TypeError
      | _ \<Rightarrow> Inr (get_prop body ''message'', get_prop body ''history''))"

subsection \<open>The messages sent to the model\<close>

text \<open>
  A message of the completion request. The casts of the source do not check anything at
  run time, so the role and the content of a history entry are whatever the request holds.
\<close>

record api_message =
  m_role :: "json option"
  m_content :: "json option"

text \<open>
  \<open>(history || []).map(msg => ({ role: msg.role, content: msg.content }))\<close>: a falsy
  history is the empty list; a truthy value that is not an array has no \<open>map\<close>, and a null
  entry has no properties: both throw a TypeError.
\<close>

fun map_history :: "json list \<Rightarrow> error + api_message list" where
  "map_history [] = Inr []"
| "map_history (msg # rest) =
     (if msg = JNull then Inl TypeError
      else (case map_history rest of
              Inl e \<Rightarrow> Inl e
            | Inr ms \<Rightarrow>
                Inr (\<lparr>m_role = get_prop msg ''role'', m_content = get_prop msg ''content''\<rparr> # ms)))"

definition history_messages :: "json option \<Rightarrow> error + api_message list" where
  "history_messages history =
     (if \<not> truthy history then Inr []
      else (case history of Some (JArr xs) \<Rightarrow> map_history xs | _ \<Rightarrow> Inl TypeError))"

subsection \<open>The model's stream and the relay\<close>

text \<open>
  A piece of the model's stream, with the optional parts \<open>choices[0]\<close>, \<open>delta\<close> and
  \<open>content\<close> of the source's \<open>chunk.choices[0]?.delta?.content\<close>. A stream is modelled
  by the finite list of its pieces and the way it ends: it completes, or it fails after
  them. A stream that stalls for ever is outside the model.
\<close>

datatype delta = Delta (delta_content: "string option")
datatype choice = Choice (choice_delta: "delta option")
datatype chunk = Chunk (choices: "choice list")
datatype stream_end = Completed | Failed

definition chunk_text :: "chunk \<Rightarrow> string" where
  "chunk_text c =
     (case choices c of
        [] \<Rightarrow> []
      | ch # _ \<Rightarrow>
          (case choice_delta ch of
             None \<Rightarrow> []
           | Some d \<Rightarrow> (case delta_content d of None \<Rightarrow> [] | Some t \<Rightarrow> t)))"

text \<open>
  The body of \<open>start(controller)\<close>: \<open>for await (const chunk of stream)\<close> with the pieces
  enqueued so far in \<open>queue\<close>. The encoder turns a text into its UTF-8 bytes and the
  decoder of the client turns them back; a chunk is modelled by its text.
\<close>

fun relay :: "chunk list \<Rightarrow> string list \<Rightarrow> string list" where
  "relay [] queue = queue"
| "relay (c # stream) queue =
     (let text = chunk_text c
      in if text \<noteq> [] then relay stream (queue @ [text]) else relay stream queue)"

subsection \<open>\<open>formatWorkoutsForContext\<close>\<close>

text \<open>\<open>Array.prototype.join\<close>.\<close>

fun join :: "string \<Rightarrow> string list \<Rightarrow> string" where
  "join sep [] = []"
| "join sep [x] = x"
| "join sep (x # y # xs) = x @ sep @ join sep (y # xs)"

text \<open>
  The two library conversions the template uses are parameters: \<open>date_str\<close> is
  \<open>new Date(created_at).toLocaleDateString('en-US', { weekday: 'short', month: 'short',
  day: 'numeric' })\<close> and \<open>num_str\<close> is the conversion of a number to a string in a
  template literal. A null and an empty \<open>notes\<close> are both falsy.
\<close>

definition formatWorkoutsForContext ::
  "(timestamp \<Rightarrow> string) \<Rightarrow> ('n \<Rightarrow> string) \<Rightarrow> 'n workout list \<Rightarrow> string" where
  "formatWorkoutsForContext date_str num_str ws =
     (if length ws = 0 then ''The user hasn't logged any workouts in the past 2 weeks.''
      else
        (let formatted =
               map (\<lambda>workout.
                      let date = date_str (created_at workout);
                          notesSection =
                            (case w_notes workout of
                               None \<Rightarrow> []
                             | Some n \<Rightarrow> if n \<noteq> [] then '' ('' @ n @ '')'' else [])
                      in ''- '' @ date @ '': '' @ w_exercise workout @ '' - '' @
                         num_str (w_sets workout) @ ''x'' @ num_str (w_reps workout) @
                         [CHR '' '', CHR ''@'', CHR '' ''] @ num_str (w_weight workout) @
                         ''lbs'' @ notesSection)
                   ws
         in ''Recent workouts (last 2 weeks):'' @ [CHR 0x0A] @ join [CHR 0x0A] formatted))"

text \<open>
  The line of an entry as the specification words it, for comparison with the lines the
  function builds: date, exercise, sets, reps and weight, and the notes in parentheses
  when the entry has notes.
\<close>

definition spec_line :: "(timestamp \<Rightarrow> string) \<Rightarrow> ('n \<Rightarrow> string) \<Rightarrow> 'n workout \<Rightarrow> string" where
  "spec_line date_str num_str w =
     date_str (created_at w) @ '': '' @ w_exercise w @ '' - '' @ num_str (w_sets w) @ ''x'' @
     num_str (w_reps w) @ [CHR '' '', CHR ''@'', CHR '' ''] @ num_str (w_weight w) @ ''lbs'' @
     (case w_notes w of None \<Rightarrow> [] | Some n \<Rightarrow> '' ('' @ n @ '')'')"

subsection \<open>\<open>POST\<close>\<close>

text \<open>
  A response: its status, the text chunks of its body in order, and how the body ends. A
  JSON response has one chunk and completes.
\<close>

record response =
  r_status :: nat
  r_body :: "string list"
  r_ending :: stream_end

definition quoted :: "string \<Rightarrow> string" where
  "quoted s = CHR 0x22 # s @ [CHR 0x22]"

definition error_response :: "nat \<Rightarrow> string \<Rightarrow> response" where
  "error_response st msg =
     \<lparr>r_status = st, r_body = [''{'' @ quoted ''error'' @ '':'' @ quoted msg @ ''}''],
      r_ending = Completed\<rparr>"

text \<open>
  What the handler works with besides the request: the constant \<open>SYSTEM_PROMPT\<close>, the two
  library conversions, the model (the answer of \<open>groq.chat.completions.create\<close> to a
  list of messages: an error, or a stream), and for the query the outcome of the store
  call, the host's time zone, the clock and the tables.
\<close>

record 'n env =
  env_SYSTEM_PROMPT :: string
  env_date_str :: "timestamp \<Rightarrow> string"
  env_num_str :: "'n \<Rightarrow> string"
  env_groq :: "api_message list \<Rightarrow> error + chunk list \<times> stream_end"
  env_fault :: fault
  env_tz :: int
  env_now :: timestamp
  env_db :: "'n state"

text \<open>The calls the handler makes to its collaborators, in order.\<close>

datatype call = CallGetRecentWorkouts nat | CallModel "api_message list"

text \<open>
  The handler; \<open>req\<close> is \<open>None\<close> when the body of the request is not JSON, so that
  \<open>req.json()\<close> rejects. Every exception inside the \<open>try\<close> block ends in the response
  of status 500.
\<close>

definition POST :: "'n env \<Rightarrow> json option \<Rightarrow> response \<times> call list" where
  "POST env req =
     (let failed = error_response 500 ''Failed to generate response''
      in case req of
           None \<Rightarrow> (failed, [])
         | Some body \<Rightarrow>
             (case destructure body of
                Inl e \<Rightarrow> (failed, [])
              | Inr (message, history) \<Rightarrow>
                  if \<not> truthy message \<or> typeof message \<noteq> ''string''
                  then (error_response 400 ''Message is required'', [])
                  else
                    (case getRecentWorkouts (env_fault env) (env_tz env) (env_now env)
                            (Some 14) (env_db env) of
                       Inl e \<Rightarrow> (failed, [CallGetRecentWorkouts 14])
                     | Inr recentWorkouts \<Rightarrow>
                         (let workoutContext =
                                formatWorkoutsForContext (env_date_str env) (env_num_str env)
                                  recentWorkouts;
                              systemPrompt =
                                env_SYSTEM_PROMPT env @ [CHR 0x0A, CHR 0x0A] @ workoutContext
                          in case history_messages history of
                               Inl e \<Rightarrow> (failed, [CallGetRecentWorkouts 14])
                             | Inr hs \<Rightarrow>
                                 (let messages =
                                        \<lparr>m_role = Some (JStr ''system''),
                                         m_content = Some (JStr systemPrompt)\<rparr> #
                                        hs @
                                        [\<lparr>m_role = Some (JStr ''user''),
                                          m_content = Some (JStr (str_of message))\<rparr>]
                                  in case env_groq env messages of
                                       Inl e \<Rightarrow>
                                         (failed, [CallGetRecentWorkouts 14, CallModel messages])
                                     | Inr (stream, fin) \<Rightarrow>
                                         (\<lparr>r_status = 200, r_body = relay stream [],
                                           r_ending = fin\<rparr>,
                                          [CallGetRecentWorkouts 14, CallModel messages]))))))"

section \<open>The chat UI\<close>

text \<open>
  A turn of the conversation. Its identifier is \<open>Date.now().toString()\<close>; it is modelled
  by the number, since the decimal notation of a number determines it.
\<close>

datatype chat_role = User | Assistant

record ChatMessage =
  msg_id :: nat
  role :: chat_role
  content :: string

record ui =
  messages :: "ChatMessage list"
  input :: string
  isLoading :: bool

text \<open>The decimal notation of a number.\<close>

function dec :: "nat \<Rightarrow> string" where
  "dec n = (if n < 10 then [char_of (48 + n)] else dec (n div 10) @ [char_of (48 + n mod 10)])"
  by pat_completeness auto
termination
  by (relation "measure id") auto

declare dec.simps [simp del]

text \<open>\<open>JSON.stringify\<close> of the request, as the value the server parses.\<close>

definition json_of_message :: "ChatMessage \<Rightarrow> json" where
  "json_of_message m =
     JObj [(''id'', JStr (dec (msg_id m))),
           (''role'', JStr (case role m of User \<Rightarrow> ''user'' | Assistant \<Rightarrow> ''assistant'')),
           (''content'', JStr (content m))]"

text \<open>
  The body of the read loop for the chunks that arrive: each is appended to the content
  of the turns whose identifier is \<open>assistantId\<close>.
\<close>

fun read_chunks :: "string list \<Rightarrow> nat \<Rightarrow> ChatMessage list \<Rightarrow> ChatMessage list" where
  "read_chunks [] assistantId prev = prev"
| "read_chunks (text # rest) assistantId prev =
     read_chunks rest assistantId
       (map (\<lambda>msg. if msg_id msg = assistantId then msg\<lparr>content := content msg @ text\<rparr>
                    else msg)
          prev)"

text \<open>
  \<open>handleSubmit\<close>: \<open>fetch\<close> is the transport (the network can fail, or a response
  arrives), \<open>now1\<close> and \<open>now2\<close> are the two readings of \<open>Date.now()\<close>. The history sent is
  the list of turns before this submit. A response that is not ok, a failed fetch and a
  body that ends in failure all end in the \<open>catch\<close> block, which overwrites the content
  of the placeholder; a body that completes leaves the loop at \<open>done\<close>.
\<close>

definition handleSubmit :: "(json \<Rightarrow> error + response) \<Rightarrow> nat \<Rightarrow> nat \<Rightarrow> ui \<Rightarrow> ui" where
  "handleSubmit fetch now1 now2 u =
     (if trim (input u) = [] \<or> isLoading u then u
      else
        (let userMessage = \<lparr>msg_id = now1, role = User, content = trim (input u)\<rparr>;
             assistantId = now2 + 1;
             started =
               (messages u @ [userMessage]) @
               [\<lparr>msg_id = assistantId, role = Assistant, content = []\<rparr>];
             caught =
               map (\<lambda>msg. if msg_id msg = assistantId
                           then msg\<lparr>content :=
                                  ''Sorry, I encountered an error. Please try again.''\<rparr>
                           else msg);
             request =
               JObj [(''message'', JStr (content userMessage)),
                     (''history'', JArr (map json_of_message (messages u)))];
             finished =
               (case fetch request of
                  Inl e \<Rightarrow> caught started
                | Inr response \<Rightarrow>
                    if \<not> (200 \<le> r_status response \<and> r_status response \<le> 299)
                    then caught started
                    else
                      (let streamed = read_chunks (r_body response) assistantId started
                       in case r_ending response of
                            Completed \<Rightarrow> streamed
                          | Failed \<Rightarrow> caught streamed))
         in \<lparr>messages = finished, input = [], isLoading = False\<rparr>))"

text \<open>The transport when the page talks to the endpoint itself.\<close>

definition fetch_chat :: "'n env \<Rightarrow> json \<Rightarrow> error + response" where
  "fetch_chat env request = Inr (fst (POST env (Some request)))"

section \<open>Properties of the suggestion extractor\<close>

lemma match_bold_SomeD:
  assumes "match_bold s = Some (name, r)"
  shows "s = ''**'' @ name @ ''**'' @ r \<and> name \<noteq> [] \<and> CHR ''*'' \<notin> set name"
proof -
  from assms obtain t where s: "s = CHR ''*'' # CHR ''*'' # t"
    by (auto simp: match_bold_def split: list.splits if_splits)
  let ?P = "\<lambda>c. c \<noteq> CHR ''*''"
  from assms s have d: "dropWhile ?P t = CHR ''*'' # CHR ''*'' # r"
    and n: "name = takeWhile ?P t" and ne: "name \<noteq> []"
    by (auto simp: match_bold_def Let_def split: list.splits if_splits)
  have "t = takeWhile ?P t @ dropWhile ?P t" by simp
  with d n have "t = name @ CHR ''*'' # CHR ''*'' # r" by simp
  moreover have "CHR ''*'' \<notin> set name"
    using n by (auto dest: set_takeWhileD)
  ultimately show ?thesis using s ne by simp
qed

lemma join_split_go: "join_bold (split_go acc s) = acc @ s"
proof (induction acc s rule: split_go.induct)
  case (1 acc)
  show ?case by simp
next
  case (2 acc c s)
  show ?case
  proof (cases "match_bold (c # s)")
    case None
    with 2 show ?thesis by simp
  next
    case (Some a)
    obtain name r where a: "a = (name, r)" by (cases a)
    from Some a have m: "match_bold (c # s) = Some (name, r)" by simp
    from match_bold_SomeD[OF m] have "c # s = ''**'' @ name @ ''**'' @ r" by simp
    moreover from 2(2)[OF m refl] have "join_bold (split_go [] r) = r" by simp
    ultimately show ?thesis using m by simp
  qed
qed

lemma odd_split_go: "odd (length (split_go acc s))"
proof (induction acc s rule: split_go.induct)
  case (1 acc)
  show ?case by simp
next
  case (2 acc c s)
  then show ?case by (auto split: option.splits)
qed

lemma spec_blocks_short: "length xs \<le> 1 \<Longrightarrow> spec_blocks xs = []"
  by (cases xs rule: spec_blocks.cases) auto

text \<open>
  The loop from index \<open>i\<close> on appends to its accumulator the suggestions of the blocks
  that start at section \<open>i - 1\<close>.
\<close>

lemma parse_loop_spec:
  "0 < i \<Longrightarrow> parse_loop secs i acc =
     acc @ List.map_filter spec_block_suggestion (spec_blocks (drop (i - 1) secs))"
proof (induction secs i acc rule: parse_loop.induct)
  case (1 sections i exercises)
  show ?case
  proof (cases "i < length sections")
    case False
    then have "length (drop (i - 1) sections) \<le> 1" using 1(2) by simp
    then have "spec_blocks (drop (i - 1) sections) = []"
      by (rule spec_blocks_short)
    with False show ?thesis by simp
  next
    case True
    with 1(2) have d0:
      "drop (i - 1) sections = sections ! (i - 1) # sections ! i # drop (i + 1) sections"
      by (metis Cons_nth_drop_Suc Suc_diff_1 Suc_eq_plus1 less_imp_diff_less)
    show ?thesis
    proof (cases "i + 1 < length sections")
      case True
      then have d1: "drop (i + 1) sections = sections ! (i + 1) # drop (i + 2) sections"
        by (metis Cons_nth_drop_Suc Suc_eq_plus1 add_2_eq_Suc')
      have b: "spec_blocks (drop (i - 1) sections) =
          (sections ! i, sections ! (i + 1)) # spec_blocks (drop (i + 2 - 1) sections)"
        using d0 d1 by simp
      show ?thesis
        apply (subst parse_loop.simps)
        using \<open>i < length sections\<close> True
        apply (simp only: if_True Let_def)
        apply (subst 1(1))
        apply (simp_all only: b)
        apply simp_all
        apply (auto simp: spec_block_suggestion_def split: option.splits)
        done
    next
      case False
      with \<open>i < length sections\<close> have e: "drop (i + 1) sections = []" by simp
      have b: "spec_blocks (drop (i - 1) sections) = [(sections ! i, [])]"
        using d0 e by simp
      show ?thesis
        apply (subst parse_loop.simps)
        using \<open>i < length sections\<close> False
        apply (simp only: if_True if_False Let_def)
        apply (subst parse_loop.simps)
        apply (simp only: b)
        apply (auto simp: spec_block_suggestion_def split: option.splits)
        done
    qed
  qed
qed

lemma spec_block_suggestion_iff:
  "spec_block_suggestion (name, details) = Some g \<longleftrightarrow>
     trim name \<noteq> [] \<and>
     (\<exists>s r w. setsMatch details = Some s \<and> repsMatch details = Some r \<and>
        weightMatch details = Some w \<and>
        g = \<lparr>exercise = trim name, sets = parseInt s, reps = parseInt r, weight = parseInt w\<rparr>)"
  by (auto simp: spec_block_suggestion_def split: option.splits)

subsection \<open>The first match of a pattern\<close>

lemma regex_search_skip:
  "(\<forall>j<length pre. m (drop j (pre @ s)) = None) \<Longrightarrow>
   regex_search m (pre @ s) = regex_search m s"
proof (induction pre)
  case Nil
  show ?case by simp
next
  case (Cons c pre)
  have "m (drop 0 ((c # pre) @ s)) = None" using Cons.prems by blast
  then have h: "m (c # pre @ s) = None" by simp
  have "\<forall>j<length pre. m (drop j (pre @ s)) = None"
  proof (intro allI impI)
    fix j assume "j < length pre"
    then have "m (drop (Suc j) ((c # pre) @ s)) = None" using Cons.prems by auto
    then show "m (drop j (pre @ s)) = None" by simp
  qed
  with Cons.IH h show ?case by simp
qed

lemma regex_search_here: "m s = Some r \<Longrightarrow> regex_search m s = Some r"
  by (cases s) auto

lemma regex_search_SomeD:
  "regex_search m s = Some r \<Longrightarrow> \<exists>k\<le>length s. m (drop k s) = Some r"
proof (induction s)
  case Nil
  then show ?case by simp
next
  case (Cons c s)
  show ?case
  proof (cases "m (c # s)")
    case None
    with Cons obtain k where "k \<le> length s" "m (drop k s) = Some r" by auto
    then have "Suc k \<le> length (c # s) \<and> m (drop (Suc k) (c # s)) = Some r" by simp
    then show ?thesis by blast
  next
    case (Some a)
    with Cons.prems have "m (drop 0 (c # s)) = Some r" by simp
    then show ?thesis by blast
  qed
qed

lemma match_label_digits:
  "match_label lbl opt s = Some ds \<Longrightarrow> ds \<noteq> [] \<and> list_all is_digit ds"
  by (auto simp: match_label_def Let_def list_all_iff
      split: option.splits list.splits if_splits dest: set_takeWhileD)

lemma match_ci_append:
  "list_all2 ci_eq lbl l \<Longrightarrow> match_ci lbl (l @ r) = Some r"
  by (induction lbl l rule: list_all2_induct) auto

lemma takeWhile_digits:
  "list_all is_digit ds \<Longrightarrow> \<not> is_digit c \<Longrightarrow> takeWhile is_digit (ds @ c # r) = ds"
  by (induction ds) auto

lemma dropWhile_ws:
  "list_all is_ws ws \<Longrightarrow> ds \<noteq> [] \<Longrightarrow> list_all is_digit ds \<Longrightarrow>
   dropWhile is_ws (ws @ ds @ r) = ds @ r"
  apply (induction ws)
   apply (cases ds)
    apply (auto simp: is_ws_def is_digit_def)
  done

text \<open>
  After a label, a colon and white space, a run of digits followed by a decimal point is
  captured up to the point: the fraction is not part of the match.
\<close>

lemma match_label_fraction:
  assumes "list_all2 ci_eq lbl l" "list_all is_ws ws" "ds \<noteq> []" "list_all is_digit ds"
  shows "match_label lbl False (l @ '':'' @ ws @ ds @ ''.'' @ r) = Some ds"
proof -
  have nd: "\<not> is_digit CHR ''.''" by (simp add: is_digit_def)
  have "dropWhile is_ws (ws @ ds @ CHR ''.'' # r) = ds @ CHR ''.'' # r"
    using dropWhile_ws[OF assms(2,3,4)] by simp
  moreover have "takeWhile is_digit (ds @ CHR ''.'' # r) = ds"
    using takeWhile_digits[OF assms(4) nd] by simp
  moreover have "match_ci lbl (l @ CHR '':'' # ws @ ds @ CHR ''.'' # r) =
      Some (CHR '':'' # ws @ ds @ CHR ''.'' # r)"
    by (rule match_ci_append[OF assms(1)])
  ultimately show ?thesis using assms(3) by (simp add: match_label_def)
qed

text \<open>
  C1. For every assistant text, \<open>parseExercisesFromMessage\<close> returns what the
  specification describes: the text is split on the spans wrapped in double asterisks
  (putting the asterisks back around the captured names gives the text again), every
  captured name is paired with the plain section right after it, and a pair yields a
  suggestion exactly when its trimmed name is not empty and the Sets, Reps and Weight
  patterns each find an integer in that section; the suggestions come in the order of
  their names, equal ones included. The Squat text yields the one suggestion
  Squat, 3, 10, 135, and without its Reps line it yields none.
\<close>

theorem C1_parseExercisesFromMessage:
  "parseExercisesFromMessage msg = spec_extract msg
   \<and> join_bold (split_bold msg) = msg
   \<and> (spec_block_suggestion (name, details) = Some g \<longleftrightarrow>
        trim name \<noteq> [] \<and>
        (\<exists>s r w. setsMatch details = Some s \<and> repsMatch details = Some r \<and>
           weightMatch details = Some w \<and>
           g = \<lparr>exercise = trim name, sets = parseInt s, reps = parseInt r,
                 weight = parseInt w\<rparr>))
   \<and> parseExercisesFromMessage
        (''**Squat**'' @ [CHR 0x0A] @ ''Sets: 3'' @ [CHR 0x0A] @ ''Reps: 10'' @ [CHR 0x0A] @
         ''Weight: 135 lbs'')
       = [\<lparr>exercise = ''Squat'', sets = 3, reps = 10, weight = 135\<rparr>]
   \<and> parseExercisesFromMessage
        (''**Squat**'' @ [CHR 0x0A] @ ''Sets: 3'' @ [CHR 0x0A] @ ''Weight: 135 lbs'') = []"
proof -
  have a: "parseExercisesFromMessage msg = spec_extract msg"
    using parse_loop_spec[of 1 "split_bold msg" "[]"]
    by (simp add: parseExercisesFromMessage_def spec_extract_def)
  have b: "join_bold (split_bold msg) = msg"
    by (simp add: split_bold_def join_split_go)
  have c: "parseExercisesFromMessage
        (''**Squat**'' @ [CHR 0x0A] @ ''Sets: 3'' @ [CHR 0x0A] @ ''Reps: 10'' @ [CHR 0x0A] @
         ''Weight: 135 lbs'')
       = [\<lparr>exercise = ''Squat'', sets = 3, reps = 10, weight = 135\<rparr>]"
    by code_simp
  have d: "parseExercisesFromMessage
        (''**Squat**'' @ [CHR 0x0A] @ ''Sets: 3'' @ [CHR 0x0A] @ ''Weight: 135 lbs'') = []"
    by code_simp
  from a b c d spec_block_suggestion_iff[of name details g] show ?thesis by blast
qed

theorem C1_parseExercisesFromMessage_witness:
  "spec_extract ''intro **Row** sets: 4, rep: 8, WEIGHT:60 **Row** Sets: 4 Reps: 8 Weight: 60''
     = [\<lparr>exercise = ''Row'', sets = 4, reps = 8, weight = 60\<rparr>,
        \<lparr>exercise = ''Row'', sets = 4, reps = 8, weight = 60\<rparr>]"
proof -
  have "parseExercisesFromMessage
      ''intro **Row** sets: 4, rep: 8, WEIGHT:60 **Row** Sets: 4 Reps: 8 Weight: 60''
     = [\<lparr>exercise = ''Row'', sets = 4, reps = 8, weight = 60\<rparr>,
        \<lparr>exercise = ''Row'', sets = 4, reps = 8, weight = 60\<rparr>]"
    by code_simp
  with C1_parseExercisesFromMessage
    [of "''intro **Row** sets: 4, rep: 8, WEIGHT:60 **Row** Sets: 4 Reps: 8 Weight: 60''"]
  show ?thesis by simp
qed

text \<open>
  C7. The Weight pattern captures digits only. Whatever it captures from any text is a
  non-empty run of digits; where the first place the pattern matches is a Weight label
  followed by a number with a decimal point, the capture is the digits before the point;
  so the block with \<open>Weight: 135.5\<close> gives the weight 135.
\<close>

theorem C7_weight_integer_only:
  "(weightMatch details = Some ds \<longrightarrow> ds \<noteq> [] \<and> list_all is_digit ds)
   \<and> ((\<forall>j<length pre.
          match_label ''Weight'' False (drop j (pre @ l @ '':'' @ ws @ n @ ''.'' @ r)) = None)
        \<and> list_all2 ci_eq ''Weight'' l \<and> list_all is_ws ws \<and> n \<noteq> [] \<and> list_all is_digit n
        \<longrightarrow> weightMatch (pre @ l @ '':'' @ ws @ n @ ''.'' @ r) = Some n)
   \<and> weightMatch ''Weight: 135.5'' = Some ''135''
   \<and> parseExercisesFromMessage
        (''**Bench**'' @ [CHR 0x0A] @ ''Sets: 3'' @ [CHR 0x0A] @ ''Reps: 10'' @ [CHR 0x0A] @
         ''Weight: 135.5 lbs'')
       = [\<lparr>exercise = ''Bench'', sets = 3, reps = 10, weight = 135\<rparr>]"
proof -
  have a: "weightMatch details = Some ds \<longrightarrow> ds \<noteq> [] \<and> list_all is_digit ds"
  proof
    assume "weightMatch details = Some ds"
    then obtain k where "match_label ''Weight'' False (drop k details) = Some ds"
      unfolding weightMatch_def by (blast dest: regex_search_SomeD)
    then show "ds \<noteq> [] \<and> list_all is_digit ds" by (rule match_label_digits)
  qed
  have b: "(\<forall>j<length pre.
          match_label ''Weight'' False (drop j (pre @ l @ '':'' @ ws @ n @ ''.'' @ r)) = None)
        \<and> list_all2 ci_eq ''Weight'' l \<and> list_all is_ws ws \<and> n \<noteq> [] \<and> list_all is_digit n
        \<longrightarrow> weightMatch (pre @ l @ '':'' @ ws @ n @ ''.'' @ r) = Some n"
  proof (intro impI, elim conjE)
    assume skip: "\<forall>j<length pre.
          match_label ''Weight'' False (drop j (pre @ l @ '':'' @ ws @ n @ ''.'' @ r)) = None"
      and h: "list_all2 ci_eq ''Weight'' l" "list_all is_ws ws" "n \<noteq> []" "list_all is_digit n"
    have "regex_search (match_label ''Weight'' False) (pre @ l @ '':'' @ ws @ n @ ''.'' @ r)
        = regex_search (match_label ''Weight'' False) (l @ '':'' @ ws @ n @ ''.'' @ r)"
      using skip by (rule regex_search_skip)
    also have "\<dots> = Some n"
      by (rule regex_search_here) (rule match_label_fraction[OF h])
    finally show "weightMatch (pre @ l @ '':'' @ ws @ n @ ''.'' @ r) = Some n"
      by (simp add: weightMatch_def)
  qed
  have c: "weightMatch ''Weight: 135.5'' = Some ''135''" by code_simp
  have d: "parseExercisesFromMessage
        (''**Bench**'' @ [CHR 0x0A] @ ''Sets: 3'' @ [CHR 0x0A] @ ''Reps: 10'' @ [CHR 0x0A] @
         ''Weight: 135.5 lbs'')
       = [\<lparr>exercise = ''Bench'', sets = 3, reps = 10, weight = 135\<rparr>]"
    by code_simp
  from a b c d show ?thesis by blast
qed

theorem C7_weight_integer_only_witness:
  "weightMatch (''ok '' @ ''weight'' @ '':'' @ '' '' @ ''72'' @ ''.'' @ ''5 kg'') = Some ''72''
   \<and> list_all is_digit ''72''"
proof -
  let ?t = "''ok '' @ ''weight'' @ '':'' @ '' '' @ ''72'' @ ''.'' @ ''5 kg''"
  have e0: "match_label ''Weight'' False (drop 0 ?t) = None" by code_simp
  have e1: "match_label ''Weight'' False (drop 1 ?t) = None" by code_simp
  have e2: "match_label ''Weight'' False (drop 2 ?t) = None" by code_simp
  have skip: "\<forall>j<length ''ok ''. match_label ''Weight'' False (drop j ?t) = None"
  proof (intro allI impI)
    fix j :: nat
    assume "j < length ''ok ''"
    then consider "j = 0" | "j = 1" | "j = 2" by fastforce
    then show "match_label ''Weight'' False (drop j ?t) = None"
    proof cases
      case 1
      with e0 show ?thesis by simp
    next
      case 2
      with e1 show ?thesis by simp
    next
      case 3
      with e2 show ?thesis by simp
    qed
  qed
  have l: "list_all2 ci_eq ''Weight'' ''weight''" by code_simp
  have w: "list_all is_ws '' ''" by code_simp
  have d: "list_all is_digit ''72''" by code_simp
  have n: "''72'' \<noteq> []" by simp
  from C7_weight_integer_only
    [of "''ok weight: 72.5 kg''" "''72''" "''ok ''" "''weight''" "'' ''" "''72''" "''5 kg''"]
    skip l w d n
  show ?thesis by blast
qed

section \<open>Properties of the server actions\<close>






subsection \<open>The three ways a toggle can go when the store answers every call\<close>










subsection \<open>At most one row per date\<close>









subsection \<open>Deleting a workout\<close>

text \<open>
  C10. \<open>deleteWorkout\<close> touches no row but those of the given identifier: whatever the
  store answers, the workout rows of another identifier are the same rows in the same
  order afterwards, no row appears, the gym-visit table is the same, and when no row has
  the identifier the workout table is the same.
\<close>

theorem C10_deleteWorkout_frame:
  "filter (\<lambda>w. w_id w \<noteq> i) (workouts (snd (deleteWorkout f i s)))
     = filter (\<lambda>w. w_id w \<noteq> i) (workouts s)
   \<and> set (workouts (snd (deleteWorkout f i s))) \<subseteq> set (workouts s)
   \<and> gym_visits (snd (deleteWorkout f i s)) = gym_visits s
   \<and> ((\<forall>w\<in>set (workouts s). w_id w \<noteq> i) \<longrightarrow>
        workouts (snd (deleteWorkout f i s)) = workouts s)"
proof -
  have "(\<forall>w\<in>set (workouts s). w_id w \<noteq> i) \<longrightarrow>
      filter (\<lambda>w. w_id w \<noteq> i) (workouts s) = workouts s"
    by simp
  then show ?thesis
    by (cases f) (auto simp: deleteWorkout_def)
qed

theorem C10_deleteWorkout_frame_witness:
  "workouts (snd (deleteWorkout None 5
      \<lparr>workouts =
         [\<lparr>w_id = 1, w_exercise = ''Squat'', w_sets = 3::nat, w_reps = 10, w_weight = 135,
           w_notes = None, created_at = 1705489200000\<rparr>],
       gym_visits = [], revalidated = []\<rparr>))
   = [\<lparr>w_id = 1, w_exercise = ''Squat'', w_sets = 3::nat, w_reps = 10, w_weight = 135,
       w_notes = None, created_at = 1705489200000\<rparr>]"
proof -
  let ?s = "\<lparr>workouts =
         [\<lparr>w_id = 1, w_exercise = ''Squat'', w_sets = 3::nat, w_reps = 10, w_weight = 135,
           w_notes = None, created_at = 1705489200000\<rparr>],
       gym_visits = [], revalidated = []\<rparr>"
  have h: "\<forall>w\<in>set (workouts ?s). w_id w \<noteq> 5" by simp
  from C10_deleteWorkout_frame[of 5 None ?s] h
  have "workouts (snd (deleteWorkout None 5 ?s)) = workouts ?s" by blast
  then show ?thesis by simp
qed

section \<open>Properties of the queries\<close>

lemma add_days_shift: "add_days tz k t = time_clip (t + k * msPerDay)"
proof -
  have "(t + tz) div msPerDay * msPerDay + (t + tz) mod msPerDay = t + tz" by simp
  then have "(local_day tz t + k) * msPerDay + time_in_day tz t - tz = t + k * msPerDay"
    by (simp add: local_day_def time_in_day_def algebra_simps)
  then show ?thesis by (simp add: add_days_def)
qed



lemma getRecentWorkouts_ok:
  assumes "time_clip (now - int n * msPerDay) = Some since"
  shows "getRecentWorkouts None tz now (Some n) s =
           Inr (order_desc (filter (\<lambda>w. now - int n * msPerDay \<le> created_at w) (workouts s)))"
proof -
  have "add_days tz (- int n) now = Some since"
    using assms by (simp add: add_days_shift)
  moreover have "since = now - int n * msPerDay"
    using assms by (simp add: time_clip_def split: if_splits)
  ultimately show ?thesis by (simp add: getRecentWorkouts_def toISOString_def)
qed



subsection \<open>The week of \<open>getWeeklyGymVisits\<close>\<close>

lemma daysFromMonday_range: "0 \<le> daysFromMonday tz t \<and> daysFromMonday tz t \<le> 6"
  by (simp add: daysFromMonday_def getDay_def Let_def) presburger

text \<open>The local day \<open>daysFromMonday\<close> days before the local day of \<open>t\<close> is a Monday.\<close>

lemma monday_is_monday: "(local_day tz t - daysFromMonday tz t + 4) mod 7 = 1"
  by (simp add: daysFromMonday_def getDay_def Let_def) presburger

lemma local_day_bounds:
  "local_day tz t * 86400000 \<le> t + tz \<and> t + tz < local_day tz t * 86400000 + 86400000"
proof -
  have "(t + tz) div 86400000 * 86400000 + (t + tz) mod 86400000 = t + tz" by simp
  moreover have "0 \<le> (t + tz) mod 86400000" "(t + tz) mod 86400000 < 86400000" by simp_all
  ultimately show ?thesis unfolding local_day_def msPerDay_def by linarith
qed

lemma local_day_shift: "local_day tz (t + k * msPerDay) = local_day tz t + k"
proof -
  have "(t + tz + k * msPerDay) div msPerDay = (t + tz) div msPerDay + k"
    by (simp add: msPerDay_def)
  then show ?thesis by (simp add: local_day_def add.assoc add.commute add.left_commute)
qed

lemma local_day_midnight: "local_day tz (d * msPerDay + tm - tz) = d + tm div msPerDay"
  by (simp add: local_day_def msPerDay_def)

text \<open>
  The window the query asks the store for, with \<open>M\<close> the local Monday of the week of
  \<open>now\<close>: it starts at the UTC date of the local midnight that begins \<open>M\<close> and ends at the
  UTC date of the last millisecond of the local day \<open>M + 6\<close>.
\<close>

lemma weekly_window:
  assumes v: "\<bar>now\<bar> \<le> 8640000000000000 - 8 * msPerDay" and tz: "\<bar>tz\<bar> \<le> msPerDay"
  shows "getWeeklyGymVisits None tz now s =
     Inr (filter
            (\<lambda>v. local_day tz now - daysFromMonday tz now + (- tz) div msPerDay
                    \<le> visited_date v
                  \<and> visited_date v
                    \<le> local_day tz now - daysFromMonday tz now + 6
                        + (86399999 - tz) div msPerDay)
            (gym_visits s))"
proof -
  define k where "k = daysFromMonday tz now"
  define M where "M = local_day tz now - k"
  have k: "0 \<le> k" "k \<le> 6" using daysFromMonday_range[of tz now] by (simp_all add: k_def)
  have m: "msPerDay = 86400000" by (simp add: msPerDay_def)
  have D: "local_day tz now * 86400000 \<le> now + tz"
    "now + tz < local_day tz now * 86400000 + 86400000"
    using local_day_bounds[of tz now] by simp_all
  have Mb: "M * 86400000 \<le> now + tz" "now + tz - 7 * 86400000 < M * 86400000"
    using D k by (simp_all add: M_def algebra_simps)
  have a1: "add_days tz (- k) now = Some (now - k * msPerDay)"
    using v k unfolding add_days_shift time_clip_def m by (simp split: if_splits)
  have s1: "setHours tz 0 (now - k * msPerDay) = Some (M * msPerDay - tz)"
  proof -
    have "local_day tz (now - k * msPerDay) = M"
      using local_day_shift[of tz now "- k"] by (simp add: M_def)
    moreover have "\<bar>M * 86400000 - tz\<bar> \<le> 8640000000000000"
      using Mb v tz unfolding m by linarith
    ultimately show ?thesis by (simp add: setHours_def time_clip_def m)
  qed
  have a2: "add_days tz 6 (M * msPerDay - tz) = Some (M * msPerDay - tz + 6 * msPerDay)"
  proof -
    have "\<bar>M * 86400000 - tz + 6 * 86400000\<bar> \<le> 8640000000000000"
      using Mb v tz unfolding m by linarith
    then show ?thesis unfolding add_days_shift time_clip_def m by simp
  qed
  have s2: "setHours tz 86399999 (M * msPerDay - tz + 6 * msPerDay) =
      Some ((M + 6) * msPerDay + 86399999 - tz)"
  proof -
    have "local_day tz (M * msPerDay - tz + 6 * msPerDay) =
        local_day tz (M * msPerDay + 0 - tz) + 6"
      using local_day_shift[of tz "M * msPerDay - tz" 6] by simp
    then have "local_day tz (M * msPerDay - tz + 6 * msPerDay) = M + 6"
      unfolding local_day_midnight by simp
    moreover have "(M + 6) * 86400000 = M * 86400000 + 518400000" by simp
    then have "\<bar>(M + 6) * 86400000 + 86399999 - tz\<bar> \<le> 8640000000000000"
      using Mb v tz unfolding m by linarith
    ultimately show ?thesis by (simp add: setHours_def time_clip_def m)
  qed
  have i1: "(M * msPerDay - tz) div msPerDay = M + (- tz) div msPerDay"
    by (simp add: m)
  have i2: "((M + 6) * msPerDay + 86399999 - tz) div msPerDay =
      M + 6 + (86399999 - tz) div msPerDay"
  proof -
    have "(M + 6) * msPerDay + 86399999 - tz = (86399999 - tz) + (M + 6) * msPerDay" by simp
    then show ?thesis by (simp add: m)
  qed
  have "getWeeklyGymVisits None tz now s =
     Inr (filter (\<lambda>v. M + (- tz) div msPerDay \<le> visited_date v
                    \<and> visited_date v \<le> M + 6 + (86399999 - tz) div msPerDay) (gym_visits s))"
    unfolding getWeeklyGymVisits_def Let_def k_def[symmetric]
    by (simp add: a1 s1 a2 s2 toISOString_date_def i1 i2)
  then show ?thesis by (simp add: M_def k_def)
qed

text \<open>
  On a host whose time zone is UTC the window is the Monday to the Sunday of the week of
  \<open>now\<close>, at every time of day.
\<close>

lemma weekly_window_utc:
  assumes "\<bar>now\<bar> \<le> 8640000000000000 - 8 * msPerDay"
  shows "getWeeklyGymVisits None 0 now s =
     Inr (filter
            (\<lambda>v. local_day 0 now - daysFromMonday 0 now \<le> visited_date v
                  \<and> visited_date v \<le> local_day 0 now - daysFromMonday 0 now + 6)
            (gym_visits s))"
proof -
  have "\<bar>0::int\<bar> \<le> msPerDay" by (simp add: msPerDay_def)
  from weekly_window[OF assms this, of s] show ?thesis by (simp add: msPerDay_def)
qed

text \<open>
  C2. On a host one hour east of UTC, at noon of Wednesday 2024-01-17 (local day 19739),
  the week of \<open>now\<close> starts on Monday 2024-01-15 (day 19737) and ends on Sunday 2024-01-21
  (day 19743); the query returns the visit of Sunday 2024-01-14 (day 19736) all the
  same, because the local midnight that begins the Monday is 23:00 of the Sunday in UTC,
  and \<open>toISOString\<close> gives the UTC date.
\<close>

theorem C2_week_window_east_of_utc:
  "getWeeklyGymVisits None 3600000 1705489200000
     \<lparr>workouts = ([] :: nat workout list),
      gym_visits = [\<lparr>v_id = 1, visited_date = 19736\<rparr>], revalidated = []\<rparr>
     = Inr [\<lparr>v_id = 1, visited_date = 19736\<rparr>]
   \<and> local_day 3600000 1705489200000 = 19739
   \<and> getDay 3600000 1705489200000 = 3
   \<and> local_day 3600000 1705489200000 - daysFromMonday 3600000 1705489200000 = 19737"
  by (simp add: getWeeklyGymVisits_def daysFromMonday_def getDay_def local_day_def
      msPerDay_def add_days_def time_in_day_def time_clip_def setHours_def
      toISOString_date_def)

section \<open>Properties of the chat endpoint\<close>

subsection \<open>The workout context\<close>

lemma join_concat:
  "xs \<noteq> [] \<Longrightarrow> sep @ join sep xs = concat (map (\<lambda>x. sep @ x) xs)"
  by (induction sep xs rule: join.induct) auto

text \<open>
  C8, as the code has it. For no entries the context is the fixed sentence. For one entry
  or more it is the header line \<open>Recent workouts (last 2 weeks):\<close> followed by one line
  per entry, in the order of the entries; a line is a dash and a space, then the date, a
  colon, the exercise, \<open>sets x reps @ weight lbs\<close> in the shape of the specification, and
  the notes in parentheses exactly when the notes are a string that is not empty.
\<close>

theorem C8_formatWorkoutsForContext:
  "formatWorkoutsForContext date_str num_str []
     = ''The user hasn't logged any workouts in the past 2 weeks.''
   \<and> (ws \<noteq> [] \<longrightarrow>
        formatWorkoutsForContext date_str num_str ws =
          ''Recent workouts (last 2 weeks):'' @
          concat
            (map (\<lambda>w. [CHR 0x0A] @ ''- '' @ date_str (created_at w) @ '': '' @ w_exercise w @
                       '' - '' @ num_str (w_sets w) @ ''x'' @ num_str (w_reps w) @
                       [CHR '' '', CHR ''@'', CHR '' ''] @ num_str (w_weight w) @ ''lbs'' @
                       (case w_notes w of
                          None \<Rightarrow> []
                        | Some n \<Rightarrow> if n \<noteq> [] then '' ('' @ n @ '')'' else []))
               ws))"
proof -
  let ?line = "\<lambda>workout. ''- '' @ date_str (created_at workout) @ '': '' @
                     w_exercise workout @ '' - '' @
                     num_str (w_sets workout) @ ''x'' @ num_str (w_reps workout) @
                     [CHR '' '', CHR ''@'', CHR '' ''] @ num_str (w_weight workout) @ ''lbs'' @
                     (case w_notes workout of
                        None \<Rightarrow> []
                      | Some n \<Rightarrow> if n \<noteq> [] then '' ('' @ n @ '')'' else [])"
  have e: "formatWorkoutsForContext date_str num_str []
     = ''The user hasn't logged any workouts in the past 2 weeks.''"
    by (simp add: formatWorkoutsForContext_def)
  have n: "formatWorkoutsForContext date_str num_str ws =
          ''Recent workouts (last 2 weeks):'' @ concat (map (\<lambda>w. [CHR 0x0A] @ ?line w) ws)"
    if "ws \<noteq> []"
  proof -
    from that have ne: "map ?line ws \<noteq> []" by simp
    have "formatWorkoutsForContext date_str num_str ws =
        ''Recent workouts (last 2 weeks):'' @ [CHR 0x0A] @ join [CHR 0x0A] (map ?line ws)"
      using that by (simp add: formatWorkoutsForContext_def Let_def)
    also have "[CHR 0x0A] @ join [CHR 0x0A] (map ?line ws) =
        concat (map (\<lambda>x. [CHR 0x0A] @ x) (map ?line ws))"
      by (rule join_concat[OF ne])
    finally show ?thesis by (simp add: comp_def)
  qed
  from e n show ?thesis by simp
qed

theorem C8_formatWorkoutsForContext_witness:
  "formatWorkoutsForContext (\<lambda>t. ''Wed, Jan 17'') dec
     [\<lparr>w_id = 1, w_exercise = ''Squat'', w_sets = 3::nat, w_reps = 10, w_weight = 135,
       w_notes = Some ''felt good'', created_at = 1705489200000\<rparr>,
      \<lparr>w_id = 2, w_exercise = ''Bench'', w_sets = 3, w_reps = 8, w_weight = 95,
       w_notes = Some [], created_at = 1705489100000\<rparr>]
   = ''Recent workouts (last 2 weeks):'' @ [CHR 0x0A] @
     ''- Wed, Jan 17: Squat - 3x10 @ 135lbs (felt good)'' @ [CHR 0x0A] @
     ''- Wed, Jan 17: Bench - 3x8 @ 95lbs''"
proof -
  let ?ws = "[\<lparr>w_id = 1, w_exercise = ''Squat'', w_sets = 3::nat, w_reps = 10, w_weight = 135,
       w_notes = Some ''felt good'', created_at = 1705489200000\<rparr>,
      \<lparr>w_id = 2, w_exercise = ''Bench'', w_sets = 3, w_reps = 8, w_weight = 95,
       w_notes = Some [], created_at = 1705489100000\<rparr>]"
  have ne: "?ws \<noteq> []" by simp
  from C8_formatWorkoutsForContext[of "\<lambda>t. ''Wed, Jan 17''" dec ?ws] ne
  have step: "formatWorkoutsForContext (\<lambda>t. ''Wed, Jan 17'') dec ?ws =
          ''Recent workouts (last 2 weeks):'' @
          concat
            (map (\<lambda>w. [CHR 0x0A] @ ''- '' @ ''Wed, Jan 17'' @ '': '' @ w_exercise w @
                       '' - '' @ dec (w_sets w) @ ''x'' @ dec (w_reps w) @
                       [CHR '' '', CHR ''@'', CHR '' ''] @ dec (w_weight w) @ ''lbs'' @
                       (case w_notes w of
                          None \<Rightarrow> []
                        | Some n \<Rightarrow> if n \<noteq> [] then '' ('' @ n @ '')'' else []))
               ?ws)"
    by blast
  have e: "''Recent workouts (last 2 weeks):'' @
          concat
            (map (\<lambda>w. [CHR 0x0A] @ ''- '' @ ''Wed, Jan 17'' @ '': '' @ w_exercise w @
                       '' - '' @ dec (w_sets w) @ ''x'' @ dec (w_reps w) @
                       [CHR '' '', CHR ''@'', CHR '' ''] @ dec (w_weight w) @ ''lbs'' @
                       (case w_notes w of
                          None \<Rightarrow> []
                        | Some n \<Rightarrow> if n \<noteq> [] then '' ('' @ n @ '')'' else []))
               ?ws)
     = ''Recent workouts (last 2 weeks):'' @ [CHR 0x0A] @
       ''- Wed, Jan 17: Squat - 3x10 @ 135lbs (felt good)'' @ [CHR 0x0A] @
       ''- Wed, Jan 17: Bench - 3x8 @ 95lbs''"
    by code_simp
  show ?thesis by (rule trans[OF step e])
qed

text \<open>
  The line the function builds for an entry is not the line of the specification: it
  starts with a dash and a space and follows a header line, and an entry whose notes are
  the empty string gets no parentheses.
\<close>

theorem C8_formatWorkoutsForContext_counterexample:
  "formatWorkoutsForContext (\<lambda>t. ''Wed, Jan 17'') dec
     [\<lparr>w_id = 1, w_exercise = ''Squat'', w_sets = 3::nat, w_reps = 10, w_weight = 135,
       w_notes = None, created_at = 1705489200000\<rparr>]
   = ''Recent workouts (last 2 weeks):'' @ [CHR 0x0A] @ ''- Wed, Jan 17: Squat - 3x10 @ 135lbs''
   \<and> spec_line (\<lambda>t. ''Wed, Jan 17'') dec
     \<lparr>w_id = 1, w_exercise = ''Squat'', w_sets = 3::nat, w_reps = 10, w_weight = 135,
       w_notes = None, created_at = 1705489200000\<rparr>
   = ''Wed, Jan 17: Squat - 3x10 @ 135lbs''
   \<and> formatWorkoutsForContext (\<lambda>t. ''Wed, Jan 17'') dec
     [\<lparr>w_id = 1, w_exercise = ''Squat'', w_sets = 3::nat, w_reps = 10, w_weight = 135,
       w_notes = Some [], created_at = 1705489200000\<rparr>]
   = ''Recent workouts (last 2 weeks):'' @ [CHR 0x0A] @ ''- Wed, Jan 17: Squat - 3x10 @ 135lbs''
   \<and> spec_line (\<lambda>t. ''Wed, Jan 17'') dec
     \<lparr>w_id = 1, w_exercise = ''Squat'', w_sets = 3::nat, w_reps = 10, w_weight = 135,
       w_notes = Some [], created_at = 1705489200000\<rparr>
   = ''Wed, Jan 17: Squat - 3x10 @ 135lbs ()''"
  by code_simp

subsection \<open>Validation of the request\<close>

lemma bad_message_iff:
  "(\<not> truthy m \<or> typeof m \<noteq> ''string'') \<longleftrightarrow> (\<forall>t. m = Some (JStr t) \<longrightarrow> t = [])"
  by (auto simp: truthy_def typeof_def split: option.splits json.splits)

lemma error_status: "r_status (error_response st msg) = st"
  by (simp add: error_response_def)

text \<open>The three ways the handler can go, by the request.\<close>

lemma POST_cases:
  "POST env req = (error_response 500 ''Failed to generate response'', [])
     \<and> (req = None \<or> req = Some JNull)
   \<or> (\<exists>body. req = Some body \<and> body \<noteq> JNull
         \<and> (\<not> truthy (get_prop body ''message'')
             \<or> typeof (get_prop body ''message'') \<noteq> ''string'')
         \<and> POST env req = (error_response 400 ''Message is required'', []))
   \<or> (\<exists>body. req = Some body \<and> body \<noteq> JNull
         \<and> \<not> (\<not> truthy (get_prop body ''message'')
                \<or> typeof (get_prop body ''message'') \<noteq> ''string'')
         \<and> (r_status (fst (POST env req)) = 500 \<or> r_status (fst (POST env req)) = 200))"
proof (cases req)
  case None
  then show ?thesis by (simp add: POST_def)
next
  case (Some body)
  show ?thesis
  proof (cases "body = JNull")
    case True
    with Some show ?thesis by (simp add: POST_def destructure_def)
  next
    case False
    then have d: "destructure body = Inr (get_prop body ''message'', get_prop body ''history'')"
      by (cases body) (simp_all add: destructure_def)
    show ?thesis
    proof (cases "\<not> truthy (get_prop body ''message'')
                  \<or> typeof (get_prop body ''message'') \<noteq> ''string''")
      case True
      with Some False d show ?thesis by (simp add: POST_def)
    next
      case nb: False
      have "r_status (fst (POST env (Some body))) = 500
            \<or> r_status (fst (POST env (Some body))) = 200"
        using nb d
        by (simp add: POST_def Let_def error_status split: sum.splits prod.splits)
      with Some False nb show ?thesis by simp
    qed
  qed
qed

text \<open>
  C4, as the code has it. The endpoint answers with status 400 exactly when the body of
  the request parses to a value other than null whose \<open>message\<close> is absent, is not a
  string, or is the empty string; it has then called neither the query nor the model. A
  message that is a string and not empty never gets 400; a body that does not parse, and
  the body null, get 500.
\<close>

theorem C4_POST_validation:
  "(r_status (fst (POST env req)) = 400 \<longleftrightarrow>
      (\<exists>body. req = Some body \<and> body \<noteq> JNull
         \<and> (\<forall>t. get_prop body ''message'' = Some (JStr t) \<longrightarrow> t = [])))
   \<and> (r_status (fst (POST env req)) = 400 \<longrightarrow> snd (POST env req) = [])
   \<and> r_status (fst (POST env None)) = 500
   \<and> r_status (fst (POST env (Some JNull))) = 500"
proof -
  have a: "r_status (fst (POST env req)) = 400 \<longleftrightarrow>
      (\<exists>body. req = Some body \<and> body \<noteq> JNull
         \<and> (\<not> truthy (get_prop body ''message'')
             \<or> typeof (get_prop body ''message'') \<noteq> ''string''))"
    using POST_cases[of env req] by (auto simp: error_status)
  have b: "r_status (fst (POST env req)) = 400 \<longrightarrow> snd (POST env req) = []"
    using POST_cases[of env req] by (auto simp: error_status)
  have c: "r_status (fst (POST env None)) = 500"
    by (simp add: POST_def error_status)
  have d: "r_status (fst (POST env (Some JNull))) = 500"
    by (simp add: POST_def destructure_def error_status)
  from a b c d show ?thesis unfolding bad_message_iff by blast
qed

theorem C4_POST_validation_witness:
  "r_status (fst (POST
      \<lparr>env_SYSTEM_PROMPT = ''You are a coach.'', env_date_str = (\<lambda>t. ''Wed, Jan 17''),
       env_num_str = dec, env_groq = (\<lambda>ms. Inl (Error ''unreachable'')),
       env_fault = None, env_tz = 0, env_now = 1705489200000,
       env_db = \<lparr>workouts = [], gym_visits = [], revalidated = []\<rparr>\<rparr>
      (Some (JObj [(''history'', JArr []), (''message'', JNum 7)])))) = 400
   \<and> snd (POST
      \<lparr>env_SYSTEM_PROMPT = ''You are a coach.'', env_date_str = (\<lambda>t. ''Wed, Jan 17''),
       env_num_str = dec, env_groq = (\<lambda>ms. Inl (Error ''unreachable'')),
       env_fault = None, env_tz = 0, env_now = 1705489200000,
       env_db = \<lparr>workouts = [], gym_visits = [], revalidated = []\<rparr>\<rparr>
      (Some (JObj [(''history'', JArr []), (''message'', JNum 7)]))) = []"
proof -
  let ?E = "\<lparr>env_SYSTEM_PROMPT = ''You are a coach.'', env_date_str = (\<lambda>t. ''Wed, Jan 17''),
       env_num_str = dec, env_groq = (\<lambda>ms. Inl (Error ''unreachable'')),
       env_fault = None, env_tz = 0, env_now = 1705489200000,
       env_db = \<lparr>workouts = [], gym_visits = [], revalidated = []\<rparr>\<rparr> :: nat env"
  let ?b = "JObj [(''history'', JArr []), (''message'', JNum 7)]"
  have g: "get_prop ?b ''message'' = Some (JNum 7)" by (simp add: get_prop_def)
  have h: "\<exists>body. Some ?b = Some body \<and> body \<noteq> JNull
         \<and> (\<forall>t. get_prop body ''message'' = Some (JStr t) \<longrightarrow> t = [])"
    using g by simp
  from C4_POST_validation[of ?E "Some ?b"] h show ?thesis by blast
qed

text \<open>
  A message that is present and is a string gets 400 when it is empty; a request without
  a usable body gets 500, not 400.
\<close>

theorem C4_POST_validation_counterexample:
  "r_status (fst (POST
      \<lparr>env_SYSTEM_PROMPT = ''You are a coach.'', env_date_str = (\<lambda>t. ''Wed, Jan 17''),
       env_num_str = dec, env_groq = (\<lambda>ms. Inl (Error ''unreachable'')),
       env_fault = None, env_tz = 0, env_now = 1705489200000,
       env_db = \<lparr>workouts = [], gym_visits = [], revalidated = []\<rparr>\<rparr>
      (Some (JObj [(''message'', JStr [])])))) = 400
   \<and> get_prop (JObj [(''message'', JStr [])]) ''message'' = Some (JStr [])
   \<and> typeof (get_prop (JObj [(''message'', JStr [])]) ''message'') = ''string''
   \<and> r_status (fst (POST
      \<lparr>env_SYSTEM_PROMPT = ''You are a coach.'', env_date_str = (\<lambda>t. ''Wed, Jan 17''),
       env_num_str = dec, env_groq = (\<lambda>ms. Inl (Error ''unreachable'')),
       env_fault = None, env_tz = 0, env_now = 1705489200000,
       env_db = \<lparr>workouts = [], gym_visits = [], revalidated = []\<rparr>\<rparr>
      (Some JNull))) = 500"
  by (simp add: POST_def destructure_def get_prop_def truthy_def typeof_def error_status)

subsection \<open>The relay and the turn of the assistant\<close>

lemma relay_filter:
  "relay stream queue = queue @ filter (\<lambda>t. t \<noteq> []) (map chunk_text stream)"
  by (induction stream arbitrary: queue) (simp_all add: Let_def)

lemma concat_filter_nonempty: "concat (filter (\<lambda>t. t \<noteq> []) xs) = concat xs"
  by (induction xs) simp_all

lemma read_chunks_last:
  "prev \<noteq> [] \<Longrightarrow> msg_id (last prev) = aid \<Longrightarrow>
   last (read_chunks cs aid prev) = (last prev)\<lparr>content := content (last prev) @ concat cs\<rparr>"
proof (induction cs arbitrary: prev)
  case Nil
  then show ?case by simp
next
  case (Cons c cs)
  let ?f = "\<lambda>msg. if msg_id msg = aid then msg\<lparr>content := content msg @ c\<rparr> else msg"
  have ne: "map ?f prev \<noteq> []" using Cons.prems by simp
  have l: "last (map ?f prev) = (last prev)\<lparr>content := content (last prev) @ c\<rparr>"
    using Cons.prems by (simp add: last_map)
  then have i: "msg_id (last (map ?f prev)) = aid" using Cons.prems by simp
  from Cons.IH[OF ne i] l show ?case by simp
qed

lemma read_chunks_fresh:
  "\<forall>m\<in>set old. msg_id m \<noteq> aid \<Longrightarrow> msg_id p = aid \<Longrightarrow>
   read_chunks cs aid (old @ [p]) = old @ [p\<lparr>content := content p @ concat cs\<rparr>]"
proof (induction cs arbitrary: p)
  case Nil
  then show ?case by simp
next
  case (Cons c cs)
  let ?f = "\<lambda>msg. if msg_id msg = aid then msg\<lparr>content := content msg @ c\<rparr> else msg"
  have "map ?f old = old" using Cons.prems(1) by (induction old) simp_all
  then have "map ?f (old @ [p]) = old @ [p\<lparr>content := content p @ c\<rparr>]"
    using Cons.prems(2) by simp
  moreover have "msg_id (p\<lparr>content := content p @ c\<rparr>) = aid" using Cons.prems(2) by simp
  ultimately show ?case using Cons.IH[OF Cons.prems(1), of "p\<lparr>content := content p @ c\<rparr>"]
    by simp
qed

lemma map_history_encoded:
  "map_history (map json_of_message ms) =
     Inr (map (\<lambda>m. \<lparr>m_role =
                      Some (JStr (case role m of User \<Rightarrow> ''user'' | Assistant \<Rightarrow> ''assistant'')),
                    m_content = Some (JStr (content m))\<rparr>) ms)"
  by (induction ms) (simp_all add: json_of_message_def get_prop_def)

text \<open>
  The answer of the endpoint to the request of the page, when the query and the model
  succeed: status 200 and the texts of the model's pieces, the empty ones left out.
\<close>

lemma POST_streams:
  assumes m: "m \<noteq> []"
    and f: "env_fault env = None"
    and v: "\<bar>env_now env - 14 * msPerDay\<bar> \<le> 8640000000000000"
    and g: "\<forall>ms. env_groq env ms = Inr (stream, fin)"
  shows "fst (POST env
            (Some (JObj [(''message'', JStr m), (''history'', JArr (map json_of_message old))])))
     = \<lparr>r_status = 200, r_body = filter (\<lambda>t. t \<noteq> []) (map chunk_text stream),
        r_ending = fin\<rparr>"
proof -
  let ?body = "JObj [(''message'', JStr m), (''history'', JArr (map json_of_message old))]"
  have d: "destructure ?body = Inr (Some (JStr m), Some (JArr (map json_of_message old)))"
    by (simp add: destructure_def get_prop_def)
  have t: "truthy (Some (JStr m))" "typeof (Some (JStr m)) = ''string''"
    using m by (simp_all add: truthy_def typeof_def)
  from v have "time_clip (env_now env - int 14 * msPerDay) =
      Some (env_now env - int 14 * msPerDay)"
    by (simp add: time_clip_def)
  from getRecentWorkouts_ok[OF this]
  have q: "getRecentWorkouts None (env_tz env) (env_now env) (Some 14) (env_db env) =
      Inr (order_desc (filter (\<lambda>w. env_now env - int 14 * msPerDay \<le> created_at w)
             (workouts (env_db env))))" .
  have h: "history_messages (Some (JArr (map json_of_message old))) =
      Inr (map (\<lambda>m. \<lparr>m_role =
                      Some (JStr (case role m of User \<Rightarrow> ''user'' | Assistant \<Rightarrow> ''assistant'')),
                    m_content = Some (JStr (content m))\<rparr>) old)"
    by (simp add: history_messages_def truthy_def map_history_encoded)
  show ?thesis
    unfolding POST_def Let_def
    by (simp add: d t f q h g relay_filter)
qed

lemma handleSubmit_streams:
  assumes i: "trim (input u) \<noteq> []" "\<not> isLoading u"
    and f: "env_fault env = None"
    and v: "\<bar>env_now env - 14 * msPerDay\<bar> \<le> 8640000000000000"
    and g: "\<forall>ms. env_groq env ms = Inr (stream, Completed)"
  shows "handleSubmit (fetch_chat env) now1 now2 u =
     \<lparr>messages =
        read_chunks (filter (\<lambda>t. t \<noteq> []) (map chunk_text stream)) (now2 + 1)
          ((messages u @ [\<lparr>msg_id = now1, role = User, content = trim (input u)\<rparr>]) @
           [\<lparr>msg_id = now2 + 1, role = Assistant, content = []\<rparr>]),
      input = [], isLoading = False\<rparr>"
  using i unfolding handleSubmit_def Let_def fetch_chat_def
  by (simp add: POST_streams[OF i(1) f v g])

text \<open>
  C3. The endpoint forwards the text of every piece of the model's stream as a chunk of
  its own, unchanged and in the order of arrival; a piece without text enqueues nothing,
  so the texts sent, put together, are the texts of the model put together. When the
  query and the model succeed and the stream completes, a submit of the page ends with the
  loading flag off and with the turn of the assistant last, its content the texts of the
  model put together; that is the state the submit leaves, nothing is appended after
  \<open>done\<close>. When no earlier turn has the identifier of the placeholder, the turns are the
  earlier ones unchanged, the turn of the user and the turn of the assistant.
\<close>

theorem C3_streaming_relay:
  "relay stream [] = filter (\<lambda>t. t \<noteq> []) (map chunk_text stream)
   \<and> concat (relay stream []) = concat (map chunk_text stream)
   \<and> (trim (input u) \<noteq> [] \<and> \<not> isLoading u \<and> env_fault env = None
        \<and> \<bar>env_now env - 14 * msPerDay\<bar> \<le> 8640000000000000
        \<and> (\<forall>ms. env_groq env ms = Inr (stream, Completed))
      \<longrightarrow> last (messages (handleSubmit (fetch_chat env) now1 now2 u))
             = \<lparr>msg_id = now2 + 1, role = Assistant, content = concat (map chunk_text stream)\<rparr>
          \<and> \<not> isLoading (handleSubmit (fetch_chat env) now1 now2 u)
          \<and> ((\<forall>m\<in>set (messages u). msg_id m \<noteq> now2 + 1) \<and> now1 \<le> now2
              \<longrightarrow> messages (handleSubmit (fetch_chat env) now1 now2 u)
                    = messages u @
                      [\<lparr>msg_id = now1, role = User, content = trim (input u)\<rparr>,
                       \<lparr>msg_id = now2 + 1, role = Assistant,
                        content = concat (map chunk_text stream)\<rparr>]))"
proof -
  let ?cs = "filter (\<lambda>t. t \<noteq> []) (map chunk_text stream)"
  let ?um = "\<lparr>msg_id = now1, role = User, content = trim (input u)\<rparr>"
  let ?am = "\<lparr>msg_id = now2 + 1, role = Assistant, content = []\<rparr>"
  have a: "relay stream [] = ?cs" by (simp add: relay_filter)
  have b: "concat (relay stream []) = concat (map chunk_text stream)"
    by (simp add: relay_filter concat_filter_nonempty)
  have c: "last (messages (handleSubmit (fetch_chat env) now1 now2 u))
             = \<lparr>msg_id = now2 + 1, role = Assistant, content = concat (map chunk_text stream)\<rparr>
          \<and> \<not> isLoading (handleSubmit (fetch_chat env) now1 now2 u)
          \<and> ((\<forall>m\<in>set (messages u). msg_id m \<noteq> now2 + 1) \<and> now1 \<le> now2
              \<longrightarrow> messages (handleSubmit (fetch_chat env) now1 now2 u)
                    = messages u @
                      [?um, \<lparr>msg_id = now2 + 1, role = Assistant,
                             content = concat (map chunk_text stream)\<rparr>])"
    if h: "trim (input u) \<noteq> []" "\<not> isLoading u" "env_fault env = None"
      "\<bar>env_now env - 14 * msPerDay\<bar> \<le> 8640000000000000"
      "\<forall>ms. env_groq env ms = Inr (stream, Completed)"
  proof -
    note hs = handleSubmit_streams[OF h, of now1 now2]
    have l: "last (read_chunks ?cs (now2 + 1) ((messages u @ [?um]) @ [?am]))
        = ?am\<lparr>content := content ?am @ concat ?cs\<rparr>"
      using read_chunks_last[of "(messages u @ [?um]) @ [?am]" "now2 + 1" ?cs] by simp
    have c1: "last (messages (handleSubmit (fetch_chat env) now1 now2 u))
             = \<lparr>msg_id = now2 + 1, role = Assistant, content = concat (map chunk_text stream)\<rparr>"
      using l by (simp add: hs concat_filter_nonempty)
    have c2: "\<not> isLoading (handleSubmit (fetch_chat env) now1 now2 u)"
      by (simp add: hs)
    have c3: "messages (handleSubmit (fetch_chat env) now1 now2 u)
                    = messages u @
                      [?um, \<lparr>msg_id = now2 + 1, role = Assistant,
                             content = concat (map chunk_text stream)\<rparr>]"
      if fr: "\<forall>m\<in>set (messages u). msg_id m \<noteq> now2 + 1" and le: "now1 \<le> now2"
    proof -
      from fr le have "\<forall>m\<in>set (messages u @ [?um]). msg_id m \<noteq> now2 + 1" by simp
      from read_chunks_fresh[OF this, of ?am ?cs]
      have "read_chunks ?cs (now2 + 1) ((messages u @ [?um]) @ [?am]) =
          (messages u @ [?um]) @ [?am\<lparr>content := content ?am @ concat ?cs\<rparr>]"
        by simp
      then show ?thesis by (simp add: hs concat_filter_nonempty)
    qed
    from c1 c2 c3 show ?thesis by blast
  qed
  from a b c show ?thesis by blast
qed

theorem C3_streaming_relay_witness:
  "messages (handleSubmit
      (fetch_chat
         \<lparr>env_SYSTEM_PROMPT = ''You are a coach.'', env_date_str = (\<lambda>t. ''Wed, Jan 17''),
          env_num_str = dec,
          env_groq = (\<lambda>ms. Inr ([Chunk [Choice (Some (Delta (Some ''Hel'')))],
                                  Chunk [Choice (Some (Delta (Some ''lo'')))]], Completed)),
          env_fault = None, env_tz = 0, env_now = 1705489200000,
          env_db = \<lparr>workouts = [], gym_visits = [], revalidated = []\<rparr>\<rparr>)
      1705489200000 1705489200000
      \<lparr>messages = [], input = ''plan a push day'', isLoading = False\<rparr>)
   = [\<lparr>msg_id = 1705489200000, role = User, content = ''plan a push day''\<rparr>,
      \<lparr>msg_id = 1705489200001, role = Assistant, content = ''Hello''\<rparr>]"
proof -
  let ?stream = "[Chunk [Choice (Some (Delta (Some ''Hel'')))],
                  Chunk [Choice (Some (Delta (Some ''lo'')))]]"
  let ?E = "\<lparr>env_SYSTEM_PROMPT = ''You are a coach.'', env_date_str = (\<lambda>t. ''Wed, Jan 17''),
          env_num_str = dec,
          env_groq = (\<lambda>ms. Inr (?stream, Completed)),
          env_fault = None, env_tz = 0, env_now = 1705489200000,
          env_db = \<lparr>workouts = [], gym_visits = [], revalidated = []\<rparr>\<rparr> :: nat env"
  let ?u = "\<lparr>messages = [], input = ''plan a push day'', isLoading = False\<rparr>"
  have t: "trim (input ?u) = ''plan a push day''" by code_simp
  have h1: "trim (input ?u) \<noteq> []" unfolding t by simp
  have h2: "\<not> isLoading ?u" by simp
  have h3: "env_fault ?E = None" by simp
  have h4: "\<bar>env_now ?E - 14 * msPerDay\<bar> \<le> 8640000000000000" by (simp add: msPerDay_def)
  have h5: "\<forall>ms. env_groq ?E ms = Inr (?stream, Completed)" by simp
  have h6: "(\<forall>m\<in>set (messages ?u). msg_id m \<noteq> 1705489200000 + 1)
      \<and> (1705489200000::nat) \<le> 1705489200000"
    by simp
  have c: "concat (map chunk_text ?stream) = ''Hello''" by (simp add: chunk_text_def)
  from C3_streaming_relay[of ?stream ?u ?E 1705489200000 1705489200000] h1 h2 h3 h4 h5 h6
  have "messages (handleSubmit (fetch_chat ?E) 1705489200000 1705489200000 ?u)
                    = messages ?u @
                      [\<lparr>msg_id = 1705489200000, role = User, content = trim (input ?u)\<rparr>,
                       \<lparr>msg_id = 1705489200000 + 1, role = Assistant,
                        content = concat (map chunk_text ?stream)\<rparr>]"
    by blast
  then show ?thesis unfolding c t by simp
qed

end
